theory Spec2Isabelle
  imports Main "HOL-Library.Word" "HOL-Library.Code_Target_Numeral"
begin

unbundle bit_operations_syntax

section \<open>The Github provider of sidecred (provider/github/github.go)\<close>

text \<open>
  A shallow embedding of \<^verbatim>\<open>provider/github/github.go\<close>. The provider talks to three
  collaborators whose code is outside the package file: the Github App (token exchange),
  the repositories client (deploy keys) and Go's libraries (JSON, RSA, PEM, SSH, strconv).
  The collaborators are parameters of the model: the fields of \<open>provider\<close>, as in the Go
  struct, and a record \<open>world\<close> for the library calls. Every call to a collaborator that
  leaves the process, or draws randomness, is written to a log, so that "no call was made"
  is a statement about the log.
\<close>

subsection \<open>Errors\<close>

text \<open>
  A Go \<^verbatim>\<open>error\<close> is an interface value; \<^verbatim>\<open>nil\<close> is \<open>None\<close> of \<open>error option\<close>.
  \<open>Opaque m\<close> is an error made outside this package, with its message.
  \<open>NumError f s k\<close> is \<^verbatim>\<open>&strconv.NumError{Func: f, Num: s, Err: k}\<close>.
  \<open>Errorf format args\<close> is the value of \<^verbatim>\<open>fmt.Errorf(format, args...)\<close>: the format
  and its arguments are kept as they are passed.
\<close>

datatype NumErrKind = ErrSyntax | ErrRange

datatype error =
    Opaque string
  | NumError string string NumErrKind
  | Errorf string "fmtarg list"
and fmtarg =
    ArgString string
  | ArgError error

subsection \<open>Time\<close>

text \<open>
  A \<^verbatim>\<open>time.Time\<close> is an instant: a count of seconds from Go's zero Time, kept in an
  \<^verbatim>\<open>int64\<close>, and a nanosecond within that second. Here a Time is the one number
  \<open>sec * 10^9 + nsec\<close>, so \<open>t div 10^9\<close> is its second count and \<open>t mod 10^9\<close> its
  nanosecond; \<open>is_Time t\<close> says that the second count fits an \<^verbatim>\<open>int64\<close>. A
  \<^verbatim>\<open>time.Duration\<close> is a number of nanoseconds. \<^verbatim>\<open>UTC()\<close> changes the location a Time
  is printed in, not the instant.
\<close>

type_synonym Time = int
type_synonym Duration = int

definition Hour :: Duration where
  "Hour = 3600 * 1000000000"

definition zeroTime :: Time where
  "zeroTime = 0"

definition is_Time :: "Time \<Rightarrow> bool" where
  "is_Time t = (- (2 ^ 63) \<le> t div 1000000000 \<and> t div 1000000000 < 2 ^ 63)"

text \<open>
  Go's integer division and remainder truncate towards zero; \<open>wrap_int64\<close> is the
  wrap-around of \<^verbatim>\<open>int64\<close> addition.
\<close>

definition go_div :: "int \<Rightarrow> int \<Rightarrow> int" where
  "go_div a b = sgn a * sgn b * (\<bar>a\<bar> div \<bar>b\<bar>)"

definition go_mod :: "int \<Rightarrow> int \<Rightarrow> int" where
  "go_mod a b = a - b * go_div a b"

definition wrap_int64 :: "int \<Rightarrow> int" where
  "wrap_int64 x = signed_take_bit 63 x"

text \<open>
  \<^verbatim>\<open>Time.Add(d)\<close> of Go's package time: it splits \<open>d\<close> into seconds and nanoseconds,
  carries the nanoseconds into the seconds, and adds the seconds with \<^verbatim>\<open>addSec\<close>, which
  saturates: when the \<^verbatim>\<open>int64\<close> sum wraps around, the second count becomes the largest
  or the smallest one (\<open>2^63 - 1\<close> or its negation).
\<close>

definition addSec :: "int \<Rightarrow> int \<Rightarrow> int" where
  "addSec ext d =
     (let sum = wrap_int64 (ext + d) in
      if (sum > ext) = (d > 0) then sum
      else if d > 0 then 2 ^ 63 - 1
      else - (2 ^ 63 - 1))"

definition Time_Add :: "Time \<Rightarrow> Duration \<Rightarrow> Time" where
  "Time_Add t d =
     (let dsec = go_div d 1000000000;
          nsec = t mod 1000000000 + go_mod d 1000000000;
          (dsec, nsec) =
            (if nsec \<ge> 1000000000 then (dsec + 1, nsec - 1000000000)
             else if nsec < 0 then (dsec - 1, nsec + 1000000000)
             else (dsec, nsec))
      in addSec (t div 1000000000) dsec * 1000000000 + nsec)"

definition UTC :: "Time \<Rightarrow> Time" where
  "UTC t = t"

subsection \<open>Data of the sidecred package\<close>

text \<open>
  Modelled from the spec: the type declarations of package \<^verbatim>\<open>sidecred\<close>
  (\<^verbatim>\<open>CredentialType\<close>, \<^verbatim>\<open>Request\<close>, \<^verbatim>\<open>Credential\<close>, \<^verbatim>\<open>Metadata\<close>, \<^verbatim>\<open>Resource\<close>) are
  not in the provider's file. \<^verbatim>\<open>CredentialType\<close> is a string type with named constants;
  \<open>OtherType s\<close> is any value that is neither of the two constants the provider knows.
\<close>

datatype CredentialType = GithubDeployKey | GithubAccessToken | OtherType string

record Request =
  Type :: CredentialType
  Config :: string

record Credential =
  Name :: string
  Value :: string
  Description :: string
  Expiration :: Time

type_synonym Metadata = "string \<rightharpoonup> string"

text \<open>Reading a Go map at a key it does not hold gives the zero value, the empty string.\<close>

definition map_index :: "Metadata \<Rightarrow> string \<Rightarrow> string" where
  "map_index m k = (case m k of None \<Rightarrow> [] | Some v \<Rightarrow> v)"

record Resource =
  Resource_Config :: string
  Resource_Metadata :: "Metadata option"

subsection \<open>Request configurations (github.go, lines 24 to 35)\<close>

record DeployKeyRequestConfig =
  Owner :: string
  Repository :: string
  Title :: string
  ReadOnly :: bool

record AccessTokenRequestConfig =
  AccessToken_Owner :: string

subsection \<open>Data of the go-github library\<close>

text \<open>
  \<^verbatim>\<open>github.InstallationPermissions\<close>: one optional access level for each scope. The
  provider sets five of the scopes; every other field of the library struct stays nil in
  every literal of github.go and is left out.
\<close>

record InstallationPermissions =
  Administration :: "string option"
  Metadata :: "string option"
  Contents :: "string option"
  PullRequests :: "string option"
  Statuses :: "string option"

text \<open>\<^verbatim>\<open>github.Key\<close>: every field is a pointer; the getters read a nil as the zero value.\<close>

record github_Key =
  Key_ID :: "64 word option"
  Key_Key :: "string option"
  Key_URL :: "string option"
  Key_Title :: "string option"
  Key_ReadOnly :: "bool option"
  Key_CreatedAt :: "Time option"

definition GetID :: "github_Key option \<Rightarrow> 64 word" where
  "GetID k = (case k of None \<Rightarrow> 0 | Some key \<Rightarrow>
     (case Key_ID key of None \<Rightarrow> 0 | Some i \<Rightarrow> i))"

definition GetCreatedAt :: "github_Key option \<Rightarrow> Time" where
  "GetCreatedAt k = (case k of None \<Rightarrow> zeroTime | Some key \<Rightarrow>
     (case Key_CreatedAt key of None \<Rightarrow> zeroTime | Some t \<Rightarrow> t))"

text \<open>
  \<^verbatim>\<open>github.Response\<close> embeds a \<^verbatim>\<open>*http.Response\<close>, which holds the status code;
  \<^verbatim>\<open>resp.StatusCode\<close> reads through the embedded pointer.
\<close>

record http_Response =
  StatusCode :: int

record github_Response =
  Response :: "http_Response option"

definition StatusNotFound :: int where
  "StatusNotFound = 404"

text \<open>
  \<^verbatim>\<open>RepositoriesAPI\<close>: the two methods the provider calls. \<^verbatim>\<open>CreateKey\<close> returns
  \<^verbatim>\<open>(*Key, *Response, error)\<close>, of which the provider drops the response; \<^verbatim>\<open>DeleteKey\<close>
  returns \<^verbatim>\<open>(*Response, error)\<close>. Pointers may be nil: reading \<^verbatim>\<open>StatusCode\<close> on a
  nil \<^verbatim>\<open>*github.Response\<close>, or on one whose embedded \<^verbatim>\<open>*http.Response\<close> is nil, panics.
\<close>

record RepositoriesAPI =
  CreateKey :: "string \<Rightarrow> string \<Rightarrow> github_Key \<Rightarrow> github_Key option \<times> error option"
  DeleteKey :: "string \<Rightarrow> string \<Rightarrow> 64 word \<Rightarrow> github_Response option \<times> error option"

subsection \<open>The provider (github.go, lines 37 to 84)\<close>

text \<open>
  \<^verbatim>\<open>app.createInstallationToken(owner, permissions)\<close> returns
  \<^verbatim>\<open>(token, expiration, error)\<close>; its body is not in github.go and is a parameter.
\<close>

record app =
  createInstallationToken :: "string \<Rightarrow> InstallationPermissions \<Rightarrow> error + string \<times> Time"

record provider =
  app :: app
  reposClientFactory :: "string \<Rightarrow> RepositoriesAPI"
  keyRotationInterval :: Duration

type_synonym option_func = "provider \<Rightarrow> provider"

definition WithDeployKeyRotationInterval :: "Duration \<Rightarrow> option_func" where
  "WithDeployKeyRotationInterval duration = (\<lambda>p. p\<lparr>keyRotationInterval := duration\<rparr>)"

definition WithReposClientFactory :: "(string \<Rightarrow> RepositoriesAPI) \<Rightarrow> option_func" where
  "WithReposClientFactory f = (\<lambda>p. p\<lparr>reposClientFactory := f\<rparr>)"

text \<open>
  \<^verbatim>\<open>New(client, options...)\<close>. The app that \<^verbatim>\<open>newApp(client)\<close> builds and the default
  client factory (an OAuth2 HTTP client) are taken as they are.
\<close>

definition New :: "app \<Rightarrow> (string \<Rightarrow> RepositoriesAPI) \<Rightarrow> option_func list \<Rightarrow> provider" where
  "New newApp_client defaultReposClientFactory options =
     foldl (\<lambda>p optionFunc. optionFunc p)
       \<lparr>app = newApp_client,
        reposClientFactory = defaultReposClientFactory,
        keyRotationInterval = Hour * 24 * 7\<rparr>
       options"

subsection \<open>Library calls\<close>

record rsa_PublicKey =
  rsa_N :: nat
  rsa_E :: int

record rsa_PrivateKey =
  PublicKey :: rsa_PublicKey
  rsa_D :: nat
  rsa_Primes :: "nat list"

datatype ssh_PublicKey = ssh_rsaPublicKey rsa_PublicKey

text \<open>
  The library functions github.go calls and whose result the caller cannot compute:
  decoding a configuration (\<^verbatim>\<open>Request.UnmarshalConfig\<close>, \<^verbatim>\<open>json.Unmarshal\<close>), drawing an
  RSA key from \<^verbatim>\<open>rand.Reader\<close>, and the encoders of x509, pem and ssh.
  \<^verbatim>\<open>pem_EncodeToMemory ty bytes\<close> is \<^verbatim>\<open>pem.EncodeToMemory(&pem.Block{Type: ty, Bytes: bytes})\<close>.
  \<open>IntSize\<close> is \<^verbatim>\<open>strconv.IntSize\<close>, the width in bits of Go's \<^verbatim>\<open>int\<close> on the platform
  the provider is built for: 32 or 64.
\<close>

record world =
  UnmarshalConfig_DeployKey :: "Request \<Rightarrow> error + DeployKeyRequestConfig"
  UnmarshalConfig_AccessToken :: "Request \<Rightarrow> error + AccessTokenRequestConfig"
  json_Unmarshal_DeployKey :: "string \<Rightarrow> error + DeployKeyRequestConfig"
  rsa_GenerateKey :: "nat \<Rightarrow> error + rsa_PrivateKey"
  x509_MarshalPKCS1PrivateKey :: "rsa_PrivateKey \<Rightarrow> string"
  pem_EncodeToMemory :: "string \<Rightarrow> string \<Rightarrow> string"
  ssh_NewPublicKey :: "rsa_PublicKey \<Rightarrow> error + ssh_PublicKey"
  ssh_MarshalAuthorizedKey :: "ssh_PublicKey \<Rightarrow> string"
  IntSize :: nat

subsection \<open>The log of calls\<close>

text \<open>
  \<open>TokenExchange owner permissions\<close>: a call of \<^verbatim>\<open>createInstallationToken\<close>;
  \<open>KeyGeneration bits\<close>: a call of \<^verbatim>\<open>rsa.GenerateKey(rand.Reader, bits)\<close>;
  \<open>KeyRegistration token owner repo key\<close>: \<^verbatim>\<open>CreateKey\<close> on the client made for \<open>token\<close>;
  \<open>KeyDeletion token owner repo id\<close>: \<^verbatim>\<open>DeleteKey\<close> on the client made for \<open>token\<close>.
\<close>

datatype call =
    TokenExchange string InstallationPermissions
  | KeyGeneration nat
  | KeyRegistration string string string github_Key
  | KeyDeletion string string string "64 word"

subsection \<open>strconv: Itoa and ParseInt\<close>

text \<open>
  \<open>int_of_int64 W x\<close> is the conversion \<^verbatim>\<open>int(x)\<close> of an \<^verbatim>\<open>int64\<close> on a platform whose
  \<^verbatim>\<open>int\<close> has \<open>W\<close> bits: it keeps the low \<open>W\<close> bits.
\<close>

definition int_of_int64 :: "nat \<Rightarrow> 64 word \<Rightarrow> int" where
  "int_of_int64 W x = signed_take_bit (W - 1) (sint x)"

text \<open>
  \<^verbatim>\<open>strconv.Itoa(i)\<close> is \<^verbatim>\<open>FormatInt(int64(i), 10)\<close>: a minus sign for a negative number,
  then the decimal digits of the magnitude, most significant first, no leading zero.
\<close>

definition digit_char :: "nat \<Rightarrow> char" where
  "digit_char d = char_of (48 + d)"

fun formatBits :: "nat \<Rightarrow> string" where
  "formatBits u =
     (if u < 10 then [digit_char u]
      else formatBits (u div 10) @ [digit_char (u mod 10)])"

declare formatBits.simps [simp del]

definition Itoa :: "int \<Rightarrow> string" where
  "Itoa i = (if i < 0 then CHR ''-'' # formatBits (nat (- i)) else formatBits (nat i))"

text \<open>
  \<^verbatim>\<open>strconv.ParseInt(s, 10, 64)\<close>, the one call github.go makes: the base is 10 and the
  size 64, so the library's handling of base 0 (prefixes, underscores) and of invalid
  arguments is not reached. The accumulator of \<^verbatim>\<open>ParseUint\<close> is a \<^verbatim>\<open>uint64\<close>; its
  arithmetic is written with \<open>mod 2 ^ 64\<close>. \<open>lower b\<close> is \<^verbatim>\<open>b | ('x' - 'X')\<close>.
\<close>

definition maxUint64 :: nat where
  "maxUint64 = 2 ^ 64 - 1"

definition lower :: "nat \<Rightarrow> nat" where
  "lower b = b OR 32"

definition digit_of :: "char \<Rightarrow> nat option" where
  "digit_of c =
     (let b = (of_char c :: nat) in
      if 48 \<le> b \<and> b \<le> 57 then Some (b - 48)
      else if 97 \<le> lower b \<and> lower b \<le> 122 then Some (lower b - 97 + 10)
      else None)"

fun ParseUint_loop :: "nat \<Rightarrow> string \<Rightarrow> nat \<times> NumErrKind option" where
  "ParseUint_loop n [] = (n, None)"
| "ParseUint_loop n (c # cs) =
     (case digit_of c of
        None \<Rightarrow> (0, Some ErrSyntax)
      | Some d \<Rightarrow>
          if d \<ge> 10 then (0, Some ErrSyntax)
          else if n \<ge> maxUint64 div 10 + 1 then (maxUint64, Some ErrRange)
          else
            let n' = (n * 10) mod 2 ^ 64;
                n1 = (n' + d) mod 2 ^ 64
            in if n1 < n' \<or> n1 > maxUint64 then (maxUint64, Some ErrRange)
               else ParseUint_loop n1 cs)"

definition ParseUint :: "string \<Rightarrow> nat \<times> NumErrKind option" where
  "ParseUint s = (if s = [] then (0, Some ErrSyntax) else ParseUint_loop 0 s)"

definition ParseInt :: "string \<Rightarrow> 64 word \<times> error option" where
  "ParseInt s0 =
     (case s0 of
        [] \<Rightarrow> (0, Some (NumError ''ParseInt'' s0 ErrSyntax))
      | c # cs \<Rightarrow>
          let neg = (c = CHR ''-'');
              s = (if c = CHR ''+'' \<or> c = CHR ''-'' then cs else s0);
              (un, err) = ParseUint s
          in if err = Some ErrSyntax then (0, Some (NumError ''ParseInt'' s0 ErrSyntax))
             else
               let cutoff = (2 ^ 63 :: nat) in
               if \<not> neg \<and> un \<ge> cutoff
                 then (word_of_nat (cutoff - 1), Some (NumError ''ParseInt'' s0 ErrRange))
               else if neg \<and> un > cutoff
                 then (- word_of_nat cutoff, Some (NumError ''ParseInt'' s0 ErrRange))
               else
                 let n = (word_of_nat un :: 64 word)
                 in (if neg then - n else n, None))"

subsection \<open>Create (github.go, lines 86 to 174)\<close>

text \<open>
  A Go function returning \<^verbatim>\<open>([]*Credential, *Metadata, error)\<close> returns a triple here; a
  nil slice is the empty list. Each function also returns the calls it made, in order.
\<close>

type_synonym create_result = "Credential list \<times> Metadata option \<times> error option"

definition createAccessToken :: "world \<Rightarrow> provider \<Rightarrow> Request \<Rightarrow> create_result \<times> call list" where
  "createAccessToken w p request =
     (case UnmarshalConfig_AccessToken w request of
        Inl err \<Rightarrow> (([], None, Some err), [])
      | Inr c \<Rightarrow>
          let permissions =
                \<lparr>Administration = None,
                 Metadata = Some ''read'',
                 Contents = Some ''read'',
                 PullRequests = Some ''write'',
                 Statuses = Some ''write''\<rparr>;
              calls = [TokenExchange (AccessToken_Owner c) permissions]
          in (case createInstallationToken (app p) (AccessToken_Owner c) permissions of
                Inl err \<Rightarrow>
                  (([], None, Some (Errorf ''create access token: %s'' [ArgError err])), calls)
              | Inr (userToken, expiration) \<Rightarrow>
                  (([\<lparr>Name = AccessToken_Owner c @ ''-access-token'',
                      Value = userToken,
                      Description = ''Github access token managed by sidecred.'',
                      Expiration = expiration\<rparr>], None, None), calls)))"

definition generateKeyPair :: "world \<Rightarrow> (string \<times> string \<times> error option) \<times> call list" where
  "generateKeyPair w =
     (case rsa_GenerateKey w 2048 of
        Inl err \<Rightarrow> (([], [], Some err), [KeyGeneration 2048])
      | Inr key \<Rightarrow>
          let privateKey = pem_EncodeToMemory w ''RSA PRIVATE KEY''
                             (x509_MarshalPKCS1PrivateKey w key)
          in (case ssh_NewPublicKey w (PublicKey key) of
                Inl err \<Rightarrow> (([], [], Some err), [KeyGeneration 2048])
              | Inr pub \<Rightarrow>
                  let publicKey = ssh_MarshalAuthorizedKey w pub
                  in ((privateKey, publicKey, None), [KeyGeneration 2048])))"

definition createDeployKey :: "world \<Rightarrow> provider \<Rightarrow> Request \<Rightarrow> create_result \<times> call list" where
  "createDeployKey w p request =
     (case UnmarshalConfig_DeployKey w request of
        Inl err \<Rightarrow> (([], None, Some err), [])
      | Inr c \<Rightarrow>
          let permissions =
                \<lparr>Administration = Some ''write'',
                 Metadata = Some ''read'',
                 Contents = None,
                 PullRequests = None,
                 Statuses = None\<rparr>;
              calls1 = [TokenExchange (Owner c) permissions]
          in (case createInstallationToken (app p) (Owner c) permissions of
                Inl err \<Rightarrow>
                  (([], None,
                    Some (Errorf ''create administrator access token: %s'' [ArgError err])), calls1)
              | Inr (adminToken, _) \<Rightarrow>
                  (case generateKeyPair w of
                     ((_, _, Some err), calls2) \<Rightarrow>
                       (([], None, Some (Errorf ''generate key pair: %s'' [ArgError err])),
                        calls1 @ calls2)
                   | ((privateKey, publicKey, None), calls2) \<Rightarrow>
                       let arg = \<lparr>Key_ID = None,
                                  Key_Key = Some publicKey,
                                  Key_URL = None,
                                  Key_Title = Some (Title c),
                                  Key_ReadOnly = Some (ReadOnly c),
                                  Key_CreatedAt = None\<rparr>;
                           calls3 = calls1 @ calls2 @
                                    [KeyRegistration adminToken (Owner c) (Repository c) arg]
                       in (case CreateKey (reposClientFactory p adminToken)
                                  (Owner c) (Repository c) arg of
                             (_, Some err) \<Rightarrow>
                               (([], None,
                                 Some (Errorf ''create deploy key: %s'' [ArgError err])), calls3)
                           | (key, None) \<Rightarrow>
                               let metadata =
                                     [''key_id'' \<mapsto> Itoa (int_of_int64 (IntSize w) (GetID key))]
                               in (([\<lparr>Name = Repository c @ ''-deploy-key'',
                                       Value = privateKey,
                                       Description = ''Github deploy key managed by sidecred.'',
                                       Expiration =
                                         UTC (Time_Add (GetCreatedAt key) (keyRotationInterval p))\<rparr>],
                                    Some metadata, None), calls3)))))"

definition Create :: "world \<Rightarrow> provider \<Rightarrow> Request \<Rightarrow> create_result \<times> call list" where
  "Create w p request =
     (case Type request of
        GithubDeployKey \<Rightarrow> createDeployKey w p request
      | GithubAccessToken \<Rightarrow> createAccessToken w p request
      | OtherType t \<Rightarrow> (([], None, Some (Errorf ''invalid request: %s'' [ArgString t])), []))"

subsection \<open>Destroy (github.go, lines 176 to 206)\<close>

text \<open>
  \<^verbatim>\<open>Destroy\<close> returns an \<^verbatim>\<open>error\<close>, or does not return: \<^verbatim>\<open>resp.StatusCode\<close> on a nil
  \<^verbatim>\<open>resp\<close>, or on a \<^verbatim>\<open>resp\<close> whose embedded response is nil, is a nil pointer
  dereference, a run-time panic. Go evaluates
  \<^verbatim>\<open>err != nil && resp.StatusCode != http.StatusNotFound\<close> from the left and reads
  \<^verbatim>\<open>resp\<close> only when \<^verbatim>\<open>err\<close> is not nil.
\<close>

datatype 'a outcome = Panic | Return 'a

definition Destroy :: "world \<Rightarrow> provider \<Rightarrow> Resource \<Rightarrow> error option outcome \<times> call list" where
  "Destroy w p resource =
     (case json_Unmarshal_DeployKey w (Resource_Config resource) of
        Inl err \<Rightarrow> (Return (Some (Errorf ''unmarshal resource config: %s'' [ArgError err])), [])
      | Inr c \<Rightarrow>
          (case Resource_Metadata resource of
             None \<Rightarrow> (Return None, [])
           | Some m \<Rightarrow>
               let s = map_index m ''key_id'' in
               if s = [] then (Return None, [])
               else
                 (case ParseInt s of
                    (_, Some err) \<Rightarrow>
                      (Return (Some (Errorf ''failed to convert key id (%s) to int: %s''
                                       [ArgString s, ArgError err])), [])
                  | (keyID, None) \<Rightarrow>
                      let permissions =
                            \<lparr>Administration = Some ''write'',
                             Metadata = Some ''read'',
                             Contents = None,
                             PullRequests = None,
                             Statuses = None\<rparr>;
                          calls1 = [TokenExchange (Owner c) permissions]
                      in (case createInstallationToken (app p) (Owner c) permissions of
                            Inl err \<Rightarrow>
                              (Return (Some (Errorf ''create administrator access token: %s''
                                               [ArgError err])), calls1)
                          | Inr (adminToken, _) \<Rightarrow>
                              let calls2 = calls1 @
                                    [KeyDeletion adminToken (Owner c) (Repository c) keyID]
                              in (case DeleteKey (reposClientFactory p adminToken)
                                         (Owner c) (Repository c) keyID of
                                    (_, None) \<Rightarrow> (Return None, calls2)
                                  | (None, Some err) \<Rightarrow> (Panic, calls2)
                                  | (Some resp, Some err) \<Rightarrow>
                                      (case Response resp of
                                         None \<Rightarrow> (Panic, calls2)
                                       | Some httpResponse \<Rightarrow>
                                           if StatusCode httpResponse \<noteq> StatusNotFound
                                           then (Return (Some (Errorf ''delete deploy key: %s''
                                                                 [ArgError err])), calls2)
                                           else (Return None, calls2)))))))"

text \<open>
  A decimal integer, as a reader of the specification understands the words: an optional
  sign, then one or more decimal digits.
\<close>

definition is_digit :: "char \<Rightarrow> bool" where
  "is_digit c = (48 \<le> (of_char c :: nat) \<and> (of_char c :: nat) \<le> 57)"

fun decimal_integer :: "string \<Rightarrow> bool" where
  "decimal_integer [] = False"
| "decimal_integer (c # cs) =
     (if c = CHR ''+'' \<or> c = CHR ''-'' then cs \<noteq> [] \<and> list_all is_digit cs
      else list_all is_digit (c # cs))"

subsection \<open>The permission profiles, as the specification names them\<close>

text \<open>
  The specification fixes two profiles: an automation profile (metadata:read,
  contents:read, pull-requests:write, statuses:write) and an administrative profile
  (administration:write, metadata:read). The two definitions follow those words; the
  functions above carry the literals of github.go.
\<close>

definition automation_profile :: InstallationPermissions where
  "automation_profile =
     \<lparr>Administration = None, Metadata = Some ''read'', Contents = Some ''read'',
      PullRequests = Some ''write'', Statuses = Some ''write''\<rparr>"

definition administrative_profile :: InstallationPermissions where
  "administrative_profile =
     \<lparr>Administration = Some ''write'', Metadata = Some ''read'', Contents = None,
      PullRequests = None, Statuses = None\<rparr>"

subsection \<open>Test doubles\<close>

text \<open>
  A fixed configuration, fixed library results, a key registry that assigns the
  identifier 42 at time 1000, and a provider built by \<open>New\<close> around an authenticator and a
  registry whose answers to the token exchange and to the delete call are given.
\<close>

definition stub_config :: DeployKeyRequestConfig where
  "stub_config = \<lparr>Owner = ''acme'', Repository = ''widgets'', Title = ''ci'', ReadOnly = True\<rparr>"

definition stub_world :: world where
  "stub_world =
     \<lparr>UnmarshalConfig_DeployKey =
        (\<lambda>r. if Config r = ''deploy-key-config'' then Inr stub_config
             else Inl (Opaque ''unexpected end of JSON input'')),
      UnmarshalConfig_AccessToken =
        (\<lambda>r. if Config r = ''access-token-config'' then Inr \<lparr>AccessToken_Owner = ''acme''\<rparr>
             else Inl (Opaque ''unexpected end of JSON input'')),
      json_Unmarshal_DeployKey =
        (\<lambda>b. if b = ''deploy-key-config'' then Inr stub_config
             else Inl (Opaque ''unexpected end of JSON input'')),
      rsa_GenerateKey =
        (\<lambda>bits. Inr \<lparr>PublicKey = \<lparr>rsa_N = 3233, rsa_E = 17\<rparr>, rsa_D = 413,
                      rsa_Primes = [61, 53]\<rparr>),
      x509_MarshalPKCS1PrivateKey = (\<lambda>k. ''DER''),
      pem_EncodeToMemory = (\<lambda>ty bytes. ''PEM '' @ ty @ '' '' @ bytes),
      ssh_NewPublicKey = (\<lambda>k. Inr (ssh_rsaPublicKey k)),
      ssh_MarshalAuthorizedKey = (\<lambda>k. ''ssh-rsa AAAA''),
      IntSize = 64\<rparr>"

definition stub_repos :: "github_Response option \<times> error option \<Rightarrow> RepositoriesAPI" where
  "stub_repos deleted =
     \<lparr>CreateKey = (\<lambda>owner repo key.
        (Some (key\<lparr>Key_ID := Some 42, Key_CreatedAt := Some 1000\<rparr>), None)),
      DeleteKey = (\<lambda>owner repo keyID. deleted)\<rparr>"

definition stub_provider ::
  "(error + string \<times> Time) \<Rightarrow> (github_Response option \<times> error option) \<Rightarrow> provider" where
  "stub_provider exchanged deleted =
     New \<lparr>createInstallationToken = (\<lambda>owner permissions. exchanged)\<rparr>
       (\<lambda>token. stub_repos deleted) []"

text \<open>
  The same libraries on a platform whose \<^verbatim>\<open>int\<close> has 32 bits, and a provider whose
  registry assigns the identifier \<open>2^31\<close> and reports a registration time ten seconds
  before the last second a Time can hold.
\<close>

definition stub_world_32 :: world where
  "stub_world_32 = stub_world\<lparr>IntSize := 32\<rparr>"

definition edge_repos :: RepositoriesAPI where
  "edge_repos =
     \<lparr>CreateKey = (\<lambda>owner repo key.
        (Some (key\<lparr>Key_ID := Some 2147483648,
                   Key_CreatedAt := Some 9223372036854775797000000000\<rparr>), None)),
      DeleteKey = (\<lambda>owner repo keyID. (None, None))\<rparr>"

definition edge_provider :: provider where
  "edge_provider =
     New \<lparr>createInstallationToken = (\<lambda>owner permissions. Inr (''ghs_admin'', 3600))\<rparr>
       (\<lambda>token. edge_repos) []"

text \<open>
  Encoders that keep the key, with their parser: a private key is written as the list of
  its numbers, each number \<open>n\<close> as \<open>n\<close> times the character 1 and then a 0, after the
  block type and a colon.
\<close>

definition enc_nat :: "nat \<Rightarrow> string" where
  "enc_nat n = replicate n (CHR ''1'') @ [CHR ''0'']"

definition enc_nats :: "nat list \<Rightarrow> string" where
  "enc_nats xs = concat (map enc_nat xs)"

fun dec_nats :: "nat \<Rightarrow> string \<Rightarrow> nat list" where
  "dec_nats n [] = []"
| "dec_nats n (c # cs) = (if c = CHR ''1'' then dec_nats (Suc n) cs else n # dec_nats 0 cs)"

definition nats_of_key :: "rsa_PrivateKey \<Rightarrow> nat list" where
  "nats_of_key k =
     rsa_N (PublicKey k) # (if rsa_E (PublicKey k) < 0 then 1 else 0) #
     nat \<bar>rsa_E (PublicKey k)\<bar> # rsa_D k # rsa_Primes k"

definition key_of_nats :: "nat list \<Rightarrow> rsa_PrivateKey option" where
  "key_of_nats xs =
     (case xs of
        n # s # e # d # ps \<Rightarrow>
          Some \<lparr>PublicKey = \<lparr>rsa_N = n, rsa_E = (if s = 0 then int e else - int e)\<rparr>,
                rsa_D = d, rsa_Primes = ps\<rparr>
      | _ \<Rightarrow> None)"

definition codec_world :: world where
  "codec_world =
     stub_world
       \<lparr>x509_MarshalPKCS1PrivateKey := (\<lambda>k. enc_nats (nats_of_key k)),
        pem_EncodeToMemory := (\<lambda>ty bytes. ty @ '':'' @ bytes)\<rparr>"

definition codec_parse :: "string \<Rightarrow> rsa_PrivateKey option" where
  "codec_parse s = key_of_nats (dec_nats 0 (drop 16 s))"

section \<open>Decimal identifiers: Itoa and ParseInt\<close>

lemma of_char_digit_char: "d < 10 \<Longrightarrow> (of_char (digit_char d) :: nat) = 48 + d"
  by (simp add: digit_char_def)

lemma digit_of_digit_char: "d < 10 \<Longrightarrow> digit_of (digit_char d) = Some d"
  by (simp add: digit_of_def of_char_digit_char Let_def)

lemma digit_char_not_sign: "d < 10 \<Longrightarrow> digit_char d \<noteq> CHR ''-'' \<and> digit_char d \<noteq> CHR ''+''"
proof -
  assume d: "d < 10"
  have "(of_char (digit_char d) :: nat) \<noteq> of_char CHR ''-''" "(of_char (digit_char d) :: nat) \<noteq> of_char CHR ''+''"
    using d by (simp_all add: of_char_digit_char)
  then show ?thesis by auto
qed

lemma ParseUint_loop_append:
  "ParseUint_loop n (xs @ ys) =
     (case ParseUint_loop n xs of (m, None) \<Rightarrow> ParseUint_loop m ys | (m, Some e) \<Rightarrow> (m, Some e))"
  by (induction xs arbitrary: n) (auto simp: Let_def split: option.splits)

lemma ParseUint_loop_digit:
  assumes "d < 10" "n * 10 + d < 2 ^ 64"
  shows "ParseUint_loop n [digit_char d] = (n * 10 + d, None)"
proof -
  have "n < maxUint64 div 10 + 1" using assms by (simp add: maxUint64_def)
  moreover have "n * 10 < 2 ^ 64" using assms by simp
  ultimately show ?thesis using assms
    by (simp add: digit_of_digit_char Let_def maxUint64_def)
qed

lemma ParseUint_loop_formatBits:
  "u < 2 ^ 64 \<Longrightarrow> ParseUint_loop 0 (formatBits u) = (u, None)"
proof (induction u rule: formatBits.induct)
  case (1 u)
  show ?case
  proof (cases "u < 10")
    case True
    then show ?thesis using ParseUint_loop_digit [of u 0] "1.prems"
      by (simp add: formatBits.simps [of u])
  next
    case False
    have "u div 10 < 2 ^ 64" using "1.prems" by simp
    then have ih: "ParseUint_loop 0 (formatBits (u div 10)) = (u div 10, None)"
      using "1.IH" False by simp
    have "u div 10 * 10 + u mod 10 = u" by simp
    then have "ParseUint_loop (u div 10) [digit_char (u mod 10)] = (u, None)"
      using ParseUint_loop_digit [of "u mod 10" "u div 10"] "1.prems" by simp
    then show ?thesis using False ih
      by (simp add: formatBits.simps [of u] ParseUint_loop_append)
  qed
qed

lemma formatBits_head: "\<exists>d cs. formatBits u = digit_char d # cs \<and> d < 10"
proof (induction u rule: formatBits.induct)
  case (1 u)
  show ?case
  proof (cases "u < 10")
    case True
    then show ?thesis by (auto simp: formatBits.simps [of u])
  next
    case False
    then obtain d cs where "formatBits (u div 10) = digit_char d # cs" "d < 10"
      using "1.IH" by blast
    then show ?thesis using False by (auto simp: formatBits.simps [of u])
  qed
qed

lemma ParseUint_formatBits: "u < 2 ^ 64 \<Longrightarrow> ParseUint (formatBits u) = (u, None)"
  using formatBits_head [of u] by (auto simp: ParseUint_def ParseUint_loop_formatBits)

lemma ParseInt_Itoa:
  assumes "- (2 ^ 63) \<le> i" "i < 2 ^ 63"
  shows "ParseInt (Itoa i) = (word_of_int i, None)"
proof (cases "i < 0")
  case True
  let ?u = "nat (- i)"
  have u: "?u \<le> 2 ^ 63" using assms True by (simp add: nat_le_iff)
  then have "?u < 2 ^ 64" by simp
  then have pu: "ParseUint (formatBits ?u) = (?u, None)" by (rule ParseUint_formatBits)
  have "- (word_of_nat ?u :: 64 word) = word_of_int i" using True by simp
  then show ?thesis using True pu u by (simp add: ParseInt_def Itoa_def Let_def)
next
  case False
  let ?u = "nat i"
  have u: "?u < 2 ^ 63" using assms False by (simp add: nat_less_iff)
  then have "?u < 2 ^ 64" by simp
  then have pu: "ParseUint (formatBits ?u) = (?u, None)" by (rule ParseUint_formatBits)
  obtain d cs where f: "formatBits ?u = digit_char d # cs" "d < 10"
    using formatBits_head by blast
  have "(word_of_nat ?u :: 64 word) = word_of_int i" using False by simp
  then show ?thesis using False pu u f digit_char_not_sign [of d]
    by (simp add: ParseInt_def Itoa_def Let_def)
qed


lemma int_of_int64_fits:
  "- (2 ^ (W - 1)) \<le> sint x \<Longrightarrow> sint x < 2 ^ (W - 1) \<Longrightarrow> int_of_int64 W x = sint x"
  by (simp add: int_of_int64_def signed_take_bit_int_eq_self)

lemma sint64_range: "- (2 ^ 63) \<le> sint (x :: 64 word) \<and> sint x < 2 ^ 63"
  using sint_ge [of x] sint_lt [of x] by simp

lemma ParseInt_Itoa_sint: "ParseInt (Itoa (sint (x :: 64 word))) = (x, None)"
  using sint64_range [of x] by (simp add: ParseInt_Itoa)

lemma ParseUint_loop_non_digit:
  "\<exists>c \<in> set s. digit_of c = None \<or> (\<exists>d. digit_of c = Some d \<and> d \<ge> 10) \<Longrightarrow> snd (ParseUint_loop n s) \<noteq> None"
  by (induction s arbitrary: n) (auto simp: Let_def split: option.splits)

lemma digit_of_non_digit:
  "\<not> is_digit c \<Longrightarrow> digit_of c = None \<or> (\<exists>d. digit_of c = Some d \<and> d \<ge> 10)"
  by (auto simp: is_digit_def digit_of_def Let_def)

lemma ParseUint_loop_rejects:
  "\<not> list_all is_digit s \<Longrightarrow> snd (ParseUint_loop n s) \<noteq> None"
proof -
  assume "\<not> list_all is_digit s"
  then obtain c where "c \<in> set s" "\<not> is_digit c"
    by (auto simp: list_all_iff)
  then show ?thesis
    using ParseUint_loop_non_digit [of s n] digit_of_non_digit [of c] by blast
qed

lemma ParseUint_loop_range:
  "ParseUint_loop n s = (m, Some ErrRange) \<Longrightarrow> m = maxUint64"
  by (induction s arbitrary: n) (auto simp: Let_def split: option.splits if_splits)

lemma ParseUint_rejects:
  "s = [] \<or> \<not> list_all is_digit s \<Longrightarrow> snd (ParseUint s) \<noteq> None"
  using ParseUint_loop_rejects [of s 0] by (auto simp: ParseUint_def)

lemma ParseUint_range: "ParseUint s = (m, Some ErrRange) \<Longrightarrow> m = maxUint64"
  using ParseUint_loop_range [of 0 s m] by (auto simp: ParseUint_def split: if_splits)

lemma ParseInt_after_ParseUint_error:
  assumes "snd (ParseUint (if c = CHR ''+'' \<or> c = CHR ''-'' then cs else c # cs)) \<noteq> None"
  shows "snd (ParseInt (c # cs)) \<noteq> None"
proof -
  let ?s = "if c = CHR ''+'' \<or> c = CHR ''-'' then cs else c # cs"
  obtain un k where p: "ParseUint ?s = (un, Some k)"
    using assms by (cases "ParseUint ?s") auto
  show ?thesis
  proof (cases k)
    case ErrSyntax
    with p show ?thesis by (simp add: ParseInt_def Let_def)
  next
    case ErrRange
    with p have "un = maxUint64" using ParseUint_range by blast
    with p ErrRange show ?thesis by (simp add: ParseInt_def maxUint64_def Let_def)
  qed
qed

lemma ParseInt_rejects_non_decimal:
  assumes "\<not> decimal_integer s"
  shows "snd (ParseInt s) \<noteq> None"
proof (cases s)
  case Nil
  then show ?thesis by (simp add: ParseInt_def)
next
  case (Cons c cs)
  let ?s = "if c = CHR ''+'' \<or> c = CHR ''-'' then cs else c # cs"
  from assms Cons have "?s = [] \<or> \<not> list_all is_digit ?s"
    by (auto split: if_splits)
  then have "snd (ParseUint ?s) \<noteq> None" by (rule ParseUint_rejects)
  then have "snd (ParseInt (c # cs)) \<noteq> None" by (rule ParseInt_after_ParseUint_error)
  with Cons show ?thesis by simp
qed

section \<open>Time.Add within the range of a Time\<close>

lemma go_div_mod: "go_div d b * b + go_mod d b = d"
  by (simp add: go_mod_def)

lemma go_mod_bounds:
  assumes "0 < b"
  shows "- b < go_mod d b \<and> go_mod d b < b"
proof (cases "0 \<le> d")
  case True
  have "sgn d * (d div b) = d div b"
    using True by (cases "d = 0") simp_all
  then have "go_div d b = d div b"
    using True assms by (simp add: go_div_def)
  then have "go_mod d b = d mod b"
    by (simp add: go_mod_def minus_mult_div_eq_mod)
  moreover have "0 \<le> d mod b" "d mod b < b" using assms by simp_all
  ultimately show ?thesis using assms by linarith
next
  case False
  then have "go_div d b = - ((- d) div b)"
    using assms by (simp add: go_div_def)
  then have "go_mod d b = - ((- d) - b * ((- d) div b))"
    by (simp add: go_mod_def algebra_simps)
  then have "go_mod d b = - ((- d) mod b)"
    by (simp only: minus_mult_div_eq_mod)
  moreover have "0 \<le> (- d) mod b" "(- d) mod b < b" using assms by simp_all
  ultimately show ?thesis using assms by linarith
qed

lemma addSec_in_range:
  assumes "- (2 ^ 63) \<le> ext + d" and "ext + d < 2 ^ 63"
  shows "addSec ext d = ext + d"
proof -
  have "wrap_int64 (ext + d) = ext + d"
    using assms by (simp add: wrap_int64_def signed_take_bit_int_eq_self)
  then show ?thesis by (auto simp: addSec_def Let_def)
qed

lemma div_unique_nsec:
  fixes e n :: int
  assumes "0 \<le> n" and "n < 1000000000"
  shows "(e * 1000000000 + n) div 1000000000 = e"
  using assms by simp

lemma Time_Add_in_range:
  assumes "is_Time (t + d)"
  shows "Time_Add t d = t + d"
proof -
  define q where "q = go_div d 1000000000"
  define r where "r = go_mod d 1000000000"
  define e where "e = t div 1000000000"
  define n where "n = t mod 1000000000"
  have d: "d = q * 1000000000 + r" by (simp add: q_def r_def go_div_mod)
  have t: "t = e * 1000000000 + n" by (simp add: e_def n_def)
  have r: "- 1000000000 < r" "r < 1000000000"
    using go_mod_bounds [of 1000000000 d] by (simp_all add: r_def)
  have n: "0 \<le> n" "n < 1000000000" by (simp_all add: n_def)
  define q' where "q' = (if n + r \<ge> 1000000000 then q + 1 else if n + r < 0 then q - 1 else q)"
  define n' where "n' = (if n + r \<ge> 1000000000 then n + r - 1000000000
                          else if n + r < 0 then n + r + 1000000000 else n + r)"
  have n': "0 \<le> n'" "n' < 1000000000" using r n by (auto simp: n'_def)
  have sum: "t + d = (e + q') * 1000000000 + n'"
    by (subst t, subst d) (auto simp: q'_def n'_def algebra_simps)
  then have "(t + d) div 1000000000 = e + q'"
    using div_unique_nsec [OF n'] by simp
  then have "addSec e q' = e + q'"
    using assms by (intro addSec_in_range) (simp_all add: is_Time_def)
  moreover have "Time_Add t d = addSec e q' * 1000000000 + n'"
    by (simp add: Time_Add_def Let_def q_def r_def e_def n_def q'_def n'_def)
  ultimately show ?thesis using sum by simp
qed

section \<open>The test encoders keep the key\<close>

lemma dec_nats_enc_nat: "dec_nats k (enc_nat n @ rest) = (k + n) # dec_nats 0 rest"
  by (induction n arbitrary: k) (simp_all add: enc_nat_def)

lemma dec_nats_enc_nats: "dec_nats 0 (enc_nats xs) = xs"
proof (induction xs)
  case Nil
  then show ?case by (simp add: enc_nats_def)
next
  case (Cons x xs)
  have "enc_nats (x # xs) = enc_nat x @ enc_nats xs" by (simp add: enc_nats_def)
  then show ?case using Cons dec_nats_enc_nat [of 0 x "enc_nats xs"] by simp
qed

lemma key_of_nats_of_key: "key_of_nats (nats_of_key k) = Some k"
  by (cases k) (auto simp: key_of_nats_def nats_of_key_def)

lemma codec_parse_encoded:
  "codec_parse (''RSA PRIVATE KEY'' @ '':'' @ enc_nats (nats_of_key k)) = Some k"
  by (simp add: codec_parse_def dec_nats_enc_nats key_of_nats_of_key)

section \<open>Create\<close>

text \<open>
  C7. A request whose type is neither the access-token type nor the deploy-key type: Create
  returns the "invalid request" error built from the type, no credentials and no metadata,
  and its log of calls is empty: no token exchange, no key generation, no registry call.
\<close>

theorem Create_invalid_request:
  assumes "Type request \<noteq> GithubAccessToken" and "Type request \<noteq> GithubDeployKey"
  shows "\<exists>t. Type request = OtherType t \<and>
           Create w p request =
             (([], None, Some (Errorf ''invalid request: %s'' [ArgString t])), [])"
  using assms by (cases "Type request") (simp_all add: Create_def)

theorem Create_invalid_request_witness:
  "Type \<lparr>Type = OtherType ''aws:sts'', Config = ''{}''\<rparr> \<noteq> GithubAccessToken \<and>
   Type \<lparr>Type = OtherType ''aws:sts'', Config = ''{}''\<rparr> \<noteq> GithubDeployKey \<and>
   Create stub_world (stub_provider (Inr (''ghs_token'', 3600)) (None, None))
       \<lparr>Type = OtherType ''aws:sts'', Config = ''{}''\<rparr> =
     (([], None, Some (Errorf ''invalid request: %s'' [ArgString ''aws:sts''])), [])"
  using Create_invalid_request
    [of "\<lparr>Type = OtherType ''aws:sts'', Config = ''{}''\<rparr>" stub_world
        "stub_provider (Inr (''ghs_token'', 3600)) (None, None)"]
  by simp

text \<open>
  C3. An access-token request whose configuration decodes to \<open>c\<close>. If the token exchange
  returns \<open>(token, expiration)\<close>, Create returns exactly one credential, named
  \<open>owner @ ''-access-token''\<close>, whose value is the token and whose expiration is the token's,
  and no metadata. If the exchange fails with \<open>err\<close>, Create returns the error
  \<^verbatim>\<open>fmt.Errorf("create access token: %s", err)\<close> and no credentials. In both cases the
  one call made is the token exchange, with the automation profile.
\<close>

theorem Create_access_token:
  assumes "Type request = GithubAccessToken"
    and "UnmarshalConfig_AccessToken w request = Inr c"
  shows "(createInstallationToken (app p) (AccessToken_Owner c) automation_profile =
            Inr (token, expiration) \<longrightarrow>
          Create w p request =
            (([\<lparr>Name = AccessToken_Owner c @ ''-access-token'',
                Value = token,
                Description = ''Github access token managed by sidecred.'',
                Expiration = expiration\<rparr>], None, None),
             [TokenExchange (AccessToken_Owner c) automation_profile])) \<and>
         (createInstallationToken (app p) (AccessToken_Owner c) automation_profile = Inl err \<longrightarrow>
          Create w p request =
            (([], None, Some (Errorf ''create access token: %s'' [ArgError err])),
             [TokenExchange (AccessToken_Owner c) automation_profile]))"
  using assms by (simp add: Create_def createAccessToken_def automation_profile_def Let_def)

theorem Create_access_token_witness:
  "Create stub_world (stub_provider (Inr (''ghs_token'', 3600)) (None, None))
       \<lparr>Type = GithubAccessToken, Config = ''access-token-config''\<rparr> =
     (([\<lparr>Name = ''acme-access-token'', Value = ''ghs_token'',
         Description = ''Github access token managed by sidecred.'',
         Expiration = 3600\<rparr>], None, None),
      [TokenExchange ''acme'' automation_profile]) \<and>
   Create stub_world (stub_provider (Inl (Opaque ''401 Unauthorized'')) (None, None))
       \<lparr>Type = GithubAccessToken, Config = ''access-token-config''\<rparr> =
     (([], None,
       Some (Errorf ''create access token: %s'' [ArgError (Opaque ''401 Unauthorized'')])),
      [TokenExchange ''acme'' automation_profile])"
proof -
  let ?r = "\<lparr>Type = GithubAccessToken, Config = ''access-token-config''\<rparr>"
  let ?c = "\<lparr>AccessToken_Owner = ''acme''\<rparr>"
  have t: "Type ?r = GithubAccessToken" by simp
  have d: "UnmarshalConfig_AccessToken stub_world ?r = Inr ?c"
    by (simp add: stub_world_def)
  have ok: "createInstallationToken (app (stub_provider (Inr (''ghs_token'', 3600)) (None, None)))
              (AccessToken_Owner ?c) automation_profile = Inr (''ghs_token'', 3600)"
    by (simp add: stub_provider_def New_def)
  have ko: "createInstallationToken
              (app (stub_provider (Inl (Opaque ''401 Unauthorized'')) (None, None)))
              (AccessToken_Owner ?c) automation_profile = Inl (Opaque ''401 Unauthorized'')"
    by (simp add: stub_provider_def New_def)
  show ?thesis
    using Create_access_token [OF t d, THEN conjunct1, rule_format, OF ok]
          Create_access_token [OF t d, THEN conjunct2, rule_format, OF ko]
    by simp
qed

text \<open>
  C1, as the code has it. A deploy-key request whose configuration decodes to \<open>c\<close>, when
  the token exchange, the key generation and the registration of the key all succeed:
  Create returns exactly one credential, named \<open>repository @ ''-deploy-key''\<close>, whose value
  is the generated private key and whose expiration is the registration time the registry
  reports plus the provider's rotation interval, whenever that sum is an instant a Time
  can hold; together with a metadata map whose only key is \<open>''key_id''\<close>, mapped to the
  decimal rendering of the identifier the registry assigned, whenever the platform's
  \<open>int\<close> can represent the identifier (on a 64-bit platform it always can). The rotation
  interval of a provider made by \<open>New\<close> without options is seven days, in nanoseconds,
  and \<open>WithDeployKeyRotationInterval\<close> replaces it.
\<close>

theorem Create_deploy_key:
  assumes "Type request = GithubDeployKey"
    and "UnmarshalConfig_DeployKey w request = Inr c"
    and "createInstallationToken (app p) (Owner c) administrative_profile =
           Inr (adminToken, tokenExpiration)"
    and "generateKeyPair w = ((privateKeyPEM, publicKeyAuthorized, None), calls)"
    and "CreateKey (reposClientFactory p adminToken) (Owner c) (Repository c)
           \<lparr>Key_ID = None, Key_Key = Some publicKeyAuthorized, Key_URL = None,
            Key_Title = Some (Title c), Key_ReadOnly = Some (ReadOnly c),
            Key_CreatedAt = None\<rparr> = (Some key, None)"
    and "Key_ID key = Some keyID"
    and "Key_CreatedAt key = Some createdAt"
    and "is_Time (createdAt + keyRotationInterval p)"
    and "- (2 ^ (IntSize w - 1)) \<le> sint keyID"
    and "sint keyID < 2 ^ (IntSize w - 1)"
  shows "fst (Create w p request) =
           ([\<lparr>Name = Repository c @ ''-deploy-key'',
              Value = privateKeyPEM,
              Description = ''Github deploy key managed by sidecred.'',
              Expiration = createdAt + keyRotationInterval p\<rparr>],
            Some [''key_id'' \<mapsto> Itoa (sint keyID)], None) \<and>
         dom [''key_id'' \<mapsto> Itoa (sint keyID)] = {''key_id''} \<and>
         keyRotationInterval (New a f []) = 7 * (24 * (3600 * 1000000000)) \<and>
         keyRotationInterval (New a f [WithDeployKeyRotationInterval d]) = d"
  using assms
  by (simp add: Create_def createDeployKey_def administrative_profile_def Let_def
      GetID_def GetCreatedAt_def int_of_int64_fits UTC_def Time_Add_in_range New_def Hour_def
      WithDeployKeyRotationInterval_def)

theorem Create_deploy_key_witness:
  "fst (Create stub_world (stub_provider (Inr (''ghs_admin'', 3600)) (None, None))
          \<lparr>Type = GithubDeployKey, Config = ''deploy-key-config''\<rparr>) =
     ([\<lparr>Name = ''widgets-deploy-key'', Value = ''PEM RSA PRIVATE KEY DER'',
        Description = ''Github deploy key managed by sidecred.'',
        Expiration = 1000 + 604800000000000\<rparr>],
      Some [''key_id'' \<mapsto> ''42''], None)"
proof -
  let ?r = "\<lparr>Type = GithubDeployKey, Config = ''deploy-key-config''\<rparr>"
  let ?p = "stub_provider (Inr (''ghs_admin'', 3600)) (None, None)"
  let ?arg = "\<lparr>Key_ID = None, Key_Key = Some ''ssh-rsa AAAA'', Key_URL = None,
            Key_Title = Some (Title stub_config), Key_ReadOnly = Some (ReadOnly stub_config),
            Key_CreatedAt = None\<rparr>"
  let ?key = "?arg\<lparr>Key_ID := Some 42, Key_CreatedAt := Some 1000\<rparr>"
  have t: "Type ?r = GithubDeployKey" by simp
  have d: "UnmarshalConfig_DeployKey stub_world ?r = Inr stub_config"
    by (simp add: stub_world_def)
  have x: "createInstallationToken (app ?p) (Owner stub_config) administrative_profile =
             Inr (''ghs_admin'', 3600)"
    by (simp add: stub_provider_def New_def)
  have g: "generateKeyPair stub_world =
             ((''PEM RSA PRIVATE KEY DER'', ''ssh-rsa AAAA'', None), [KeyGeneration 2048])"
    by (simp add: generateKeyPair_def stub_world_def)
  have k: "CreateKey (reposClientFactory ?p ''ghs_admin'') (Owner stub_config)
             (Repository stub_config) ?arg = (Some ?key, None)"
    by (simp add: stub_provider_def New_def stub_repos_def)
  have i: "Key_ID ?key = Some 42" by simp
  have c: "Key_CreatedAt ?key = Some 1000" by simp
  have interval: "keyRotationInterval ?p = 604800000000000"
    by (simp add: stub_provider_def New_def Hour_def)
  have range: "is_Time (1000 + keyRotationInterval ?p)"
    by (simp add: interval is_Time_def)
  have lo: "- (2 ^ (IntSize stub_world - 1)) \<le> sint (42 :: 64 word)"
    by (simp add: stub_world_def)
  have hi: "sint (42 :: 64 word) < 2 ^ (IntSize stub_world - 1)"
    by (simp add: stub_world_def)
  have "Itoa (sint (42 :: 64 word)) = ''42''"
    by code_simp
  with interval show ?thesis
    using Create_deploy_key [OF t d x g k i c range lo hi, THEN conjunct1]
    by (simp add: stub_config_def)
qed

text \<open>
  C1 as it is stated fails at two inputs. A registry that reports a registration time ten
  seconds before the last second a Time can hold: \<^verbatim>\<open>Time.Add\<close> saturates, and the
  expiration is that last second, not the time plus seven days. A platform whose \<open>int\<close>
  has 32 bits and a registry that assigns the identifier \<open>2^31\<close>: \<^verbatim>\<open>int(key.GetID())\<close>
  keeps the low 32 bits, and \<open>key_id\<close> is \<open>''-2147483648''\<close>, not the decimal rendering of
  the identifier. Both runs return one credential and no error.
\<close>

theorem Create_deploy_key_counterexample:
  "snd (snd (fst (Create stub_world edge_provider
      \<lparr>Type = GithubDeployKey, Config = ''deploy-key-config''\<rparr>))) = None \<and>
   Expiration (hd (fst (fst (Create stub_world edge_provider
      \<lparr>Type = GithubDeployKey, Config = ''deploy-key-config''\<rparr>)))) =
     9223372036854775807000000000 \<and>
   Expiration (hd (fst (fst (Create stub_world edge_provider
      \<lparr>Type = GithubDeployKey, Config = ''deploy-key-config''\<rparr>)))) \<noteq>
     9223372036854775797000000000 + keyRotationInterval edge_provider \<and>
   snd (snd (fst (Create stub_world_32 edge_provider
      \<lparr>Type = GithubDeployKey, Config = ''deploy-key-config''\<rparr>))) = None \<and>
   the (fst (snd (fst (Create stub_world_32 edge_provider
      \<lparr>Type = GithubDeployKey, Config = ''deploy-key-config''\<rparr>)))) ''key_id'' =
     Some ''-2147483648'' \<and>
   the (fst (snd (fst (Create stub_world_32 edge_provider
      \<lparr>Type = GithubDeployKey, Config = ''deploy-key-config''\<rparr>)))) ''key_id'' \<noteq>
     Some (Itoa (sint (2147483648 :: 64 word)))"
proof -
  let ?r = "\<lparr>Type = GithubDeployKey, Config = ''deploy-key-config''\<rparr>"
  have interval: "keyRotationInterval edge_provider = 604800000000000"
    by (simp add: edge_provider_def New_def Hour_def)
  have add: "Time_Add 9223372036854775797000000000 604800000000000 =
               9223372036854775807000000000"
    by code_simp
  have i32: "Itoa (int_of_int64 32 2147483648) = ''-2147483648''" by code_simp
  have i64: "Itoa 2147483648 = ''2147483648''" by code_simp
  have r64: "fst (Create stub_world edge_provider ?r) =
               ([\<lparr>Name = ''widgets-deploy-key'', Value = ''PEM RSA PRIVATE KEY DER'',
                  Description = ''Github deploy key managed by sidecred.'',
                  Expiration = Time_Add 9223372036854775797000000000 604800000000000\<rparr>],
                Some [''key_id'' \<mapsto> Itoa (int_of_int64 64 2147483648)], None)"
    by (simp add: Create_def createDeployKey_def generateKeyPair_def stub_world_def
        edge_provider_def edge_repos_def stub_config_def New_def Hour_def GetID_def
        GetCreatedAt_def UTC_def Let_def)
  have r32: "fst (Create stub_world_32 edge_provider ?r) =
               ([\<lparr>Name = ''widgets-deploy-key'', Value = ''PEM RSA PRIVATE KEY DER'',
                  Description = ''Github deploy key managed by sidecred.'',
                  Expiration = Time_Add 9223372036854775797000000000 604800000000000\<rparr>],
                Some [''key_id'' \<mapsto> Itoa (int_of_int64 32 2147483648)], None)"
    by (simp add: Create_def createDeployKey_def generateKeyPair_def stub_world_32_def
        stub_world_def edge_provider_def edge_repos_def stub_config_def New_def Hour_def
        GetID_def GetCreatedAt_def UTC_def Let_def)
  show ?thesis
    by (simp add: r64 r32 add i32 i64 interval)
qed

text \<open>
  C6. A deploy-key request whose configuration decodes to \<open>c\<close>, when the token exchange
  fails with \<open>err\<close>: Create returns the error
  \<^verbatim>\<open>fmt.Errorf("create administrator access token: %s", err)\<close>, no credentials and no
  metadata, and the log holds the token exchange alone: neither the key generation nor the
  registration of a key was called.
\<close>

theorem Create_deploy_key_exchange_fails:
  assumes "Type request = GithubDeployKey"
    and "UnmarshalConfig_DeployKey w request = Inr c"
    and "createInstallationToken (app p) (Owner c) administrative_profile = Inl err"
  shows "Create w p request =
           (([], None,
             Some (Errorf ''create administrator access token: %s'' [ArgError err])),
            [TokenExchange (Owner c) administrative_profile])"
  using assms
  by (simp add: Create_def createDeployKey_def administrative_profile_def Let_def)

theorem Create_deploy_key_exchange_fails_witness:
  "Create stub_world (stub_provider (Inl (Opaque ''401 Unauthorized'')) (None, None))
       \<lparr>Type = GithubDeployKey, Config = ''deploy-key-config''\<rparr> =
     (([], None,
       Some (Errorf ''create administrator access token: %s''
               [ArgError (Opaque ''401 Unauthorized'')])),
      [TokenExchange ''acme'' administrative_profile])"
proof -
  let ?r = "\<lparr>Type = GithubDeployKey, Config = ''deploy-key-config''\<rparr>"
  let ?p = "stub_provider (Inl (Opaque ''401 Unauthorized'')) (None, None)"
  have t: "Type ?r = GithubDeployKey" by simp
  have d: "UnmarshalConfig_DeployKey stub_world ?r = Inr stub_config"
    by (simp add: stub_world_def)
  have x: "createInstallationToken (app ?p) (Owner stub_config) administrative_profile =
             Inl (Opaque ''401 Unauthorized'')"
    by (simp add: stub_provider_def New_def)
  show ?thesis
    using Create_deploy_key_exchange_fails [OF t d x] by (simp add: stub_config_def)
qed

section \<open>Destroy\<close>

lemma Itoa_not_empty: "Itoa i \<noteq> []"
  using formatBits_head [of "nat i"] formatBits_head [of "nat (- i)"]
  by (auto simp: Itoa_def)

lemma Destroy_delete_result:
  assumes "json_Unmarshal_DeployKey w (Resource_Config resource) = Inr c"
    and "Resource_Metadata resource = Some m"
    and "m ''key_id'' = Some s"
    and "s \<noteq> []"
    and "ParseInt s = (keyID, None)"
    and "createInstallationToken (app p) (Owner c) administrative_profile = Inr (adminToken, e)"
    and "DeleteKey (reposClientFactory p adminToken) (Owner c) (Repository c) keyID = (resp, err)"
  shows "Destroy w p resource =
           ((case err of
               None \<Rightarrow> Return None
             | Some failure \<Rightarrow>
                 (case resp of
                    None \<Rightarrow> Panic
                  | Some r \<Rightarrow>
                      (case Response r of
                         None \<Rightarrow> Panic
                       | Some httpResponse \<Rightarrow>
                           if StatusCode httpResponse = 404 then Return None
                           else Return (Some (Errorf ''delete deploy key: %s''
                                                [ArgError failure]))))),
            [TokenExchange (Owner c) administrative_profile,
             KeyDeletion adminToken (Owner c) (Repository c) keyID])"
  using assms
  by (simp add: Destroy_def map_index_def administrative_profile_def Let_def StatusNotFound_def
      split: option.splits)

text \<open>
  C2. With a decoded configuration, a parseable \<open>key_id\<close> and a token, Destroy calls
  \<^verbatim>\<open>DeleteKey\<close> and reads \<^verbatim>\<open>resp.StatusCode\<close> whenever the error is not nil. A delete
  call that fails before any response exists (the client returns a nil response and an
  error, as on a refused connection) makes Destroy dereference nil: it panics instead of
  returning the wrapped error.
\<close>

theorem Destroy_panics_on_nil_response:
  "Destroy stub_world
      (stub_provider (Inr (''ghs_admin'', 3600))
         (None, Some (Opaque ''dial tcp: connection refused'')))
      \<lparr>Resource_Config = ''deploy-key-config'',
       Resource_Metadata = Some [''key_id'' \<mapsto> ''42'']\<rparr> =
     (Panic,
      [TokenExchange ''acme'' administrative_profile,
       KeyDeletion ''ghs_admin'' ''acme'' ''widgets'' 42])"
proof -
  have "ParseInt ''42'' = (42, None)" by code_simp
  then show ?thesis
    by (simp add: Destroy_def stub_world_def stub_provider_def stub_repos_def stub_config_def
        New_def map_index_def administrative_profile_def Let_def)
qed

text \<open>
  C4. A resource whose configuration decodes and whose metadata is absent, or holds no
  \<open>key_id\<close>, or holds the empty string there: Destroy returns nil at once and its log of
  calls is empty: no token exchange and no delete call.
\<close>

theorem Destroy_without_key_id:
  assumes "json_Unmarshal_DeployKey w (Resource_Config resource) = Inr c"
    and "Resource_Metadata resource = None \<or>
         (\<exists>m. Resource_Metadata resource = Some m \<and>
              (m ''key_id'' = None \<or> m ''key_id'' = Some []))"
  shows "Destroy w p resource = (Return None, [])"
  using assms by (auto simp: Destroy_def map_index_def Let_def)

theorem Destroy_without_key_id_witness:
  "Destroy stub_world (stub_provider (Inr (''ghs_admin'', 3600)) (None, None))
     \<lparr>Resource_Config = ''deploy-key-config'', Resource_Metadata = None\<rparr> = (Return None, []) \<and>
   Destroy stub_world (stub_provider (Inr (''ghs_admin'', 3600)) (None, None))
     \<lparr>Resource_Config = ''deploy-key-config'', Resource_Metadata = Some Map.empty\<rparr> =
     (Return None, []) \<and>
   Destroy stub_world (stub_provider (Inr (''ghs_admin'', 3600)) (None, None))
     \<lparr>Resource_Config = ''deploy-key-config'',
      Resource_Metadata = Some [''key_id'' \<mapsto> []]\<rparr> = (Return None, [])"
proof -
  let ?p = "stub_provider (Inr (''ghs_admin'', 3600)) (None, None)"
  have d: "\<And>md. json_Unmarshal_DeployKey stub_world
             (Resource_Config \<lparr>Resource_Config = ''deploy-key-config'', Resource_Metadata = md\<rparr>) =
           Inr stub_config"
    by (simp add: stub_world_def)
  have a: "Destroy stub_world ?p
             \<lparr>Resource_Config = ''deploy-key-config'', Resource_Metadata = None\<rparr> =
           (Return None, [])"
    by (rule Destroy_without_key_id [OF d]) simp
  have b: "Destroy stub_world ?p
             \<lparr>Resource_Config = ''deploy-key-config'', Resource_Metadata = Some Map.empty\<rparr> =
           (Return None, [])"
    by (rule Destroy_without_key_id [OF d]) simp
  have c: "Destroy stub_world ?p
             \<lparr>Resource_Config = ''deploy-key-config'',
              Resource_Metadata = Some [''key_id'' \<mapsto> []]\<rparr> = (Return None, [])"
    by (rule Destroy_without_key_id [OF d]) simp
  from a b c show ?thesis by simp
qed

text \<open>
  C5. A resource whose metadata holds a non-empty \<open>key_id\<close> that is not a decimal integer,
  or that \<^verbatim>\<open>strconv.ParseInt(s, 10, 64)\<close> rejects for any reason (a decimal integer outside
  the 64-bit range): Destroy returns an error that is not nil and its log of calls is
  empty: no token exchange and no delete call. This holds whether or not the configuration
  decodes.
\<close>

theorem Destroy_unparseable_key_id:
  assumes "Resource_Metadata resource = Some m"
    and "m ''key_id'' = Some s"
    and "s \<noteq> []"
    and "\<not> decimal_integer s \<or> snd (ParseInt s) \<noteq> None"
  shows "\<exists>err. Destroy w p resource = (Return (Some err), [])"
proof -
  from assms(4) have "snd (ParseInt s) \<noteq> None"
    using ParseInt_rejects_non_decimal by blast
  with assms(1-3) show ?thesis
    by (cases "ParseInt s")
       (auto simp: Destroy_def map_index_def Let_def split: sum.splits)
qed

theorem Destroy_unparseable_key_id_witness:
  "(\<exists>err. Destroy stub_world (stub_provider (Inr (''ghs_admin'', 3600)) (None, None))
       \<lparr>Resource_Config = ''deploy-key-config'',
        Resource_Metadata = Some [''key_id'' \<mapsto> ''not-a-number'']\<rparr> =
     (Return (Some err), [])) \<and>
   (\<exists>err. Destroy stub_world (stub_provider (Inr (''ghs_admin'', 3600)) (None, None))
       \<lparr>Resource_Config = ''deploy-key-config'',
        Resource_Metadata = Some [''key_id'' \<mapsto> ''9223372036854775808'']\<rparr> =
     (Return (Some err), []))"
proof -
  have a: "\<not> decimal_integer ''not-a-number'' \<or> snd (ParseInt ''not-a-number'') \<noteq> None"
    by (simp add: is_digit_def)
  have "ParseInt ''9223372036854775808'' =
          (9223372036854775807, Some (NumError ''ParseInt'' ''9223372036854775808'' ErrRange))"
    by code_simp
  then have b: "\<not> decimal_integer ''9223372036854775808'' \<or>
                snd (ParseInt ''9223372036854775808'') \<noteq> None"
    by simp
  have "\<exists>err. Destroy stub_world (stub_provider (Inr (''ghs_admin'', 3600)) (None, None))
       \<lparr>Resource_Config = ''deploy-key-config'',
        Resource_Metadata = Some [''key_id'' \<mapsto> ''not-a-number'']\<rparr> =
     (Return (Some err), [])"
    by (rule Destroy_unparseable_key_id [where s = "''not-a-number''"
          and m = "[''key_id'' \<mapsto> ''not-a-number'']", OF _ _ _ a]) simp_all
  moreover have "\<exists>err. Destroy stub_world
       (stub_provider (Inr (''ghs_admin'', 3600)) (None, None))
       \<lparr>Resource_Config = ''deploy-key-config'',
        Resource_Metadata = Some [''key_id'' \<mapsto> ''9223372036854775808'']\<rparr> =
     (Return (Some err), [])"
    by (rule Destroy_unparseable_key_id [where s = "''9223372036854775808''"
          and m = "[''key_id'' \<mapsto> ''9223372036854775808'']", OF _ _ _ b]) simp_all
  ultimately show ?thesis by simp
qed

text \<open>
  C10. An identifier \<open>n\<close> that the platform's \<open>int\<close>, \<open>W\<close> bits wide, can represent: the
  parse of Destroy inverts the decimal rendering \<^verbatim>\<open>strconv.Itoa(int(n))\<close> that the
  deploy-key flow writes into the metadata, and Destroy, given that metadata, a decoded
  configuration and a token, passes \<open>n\<close> itself to the one delete call it makes.
\<close>

theorem key_id_round_trip:
  assumes "- (2 ^ (W - 1)) \<le> sint n" and "sint n < 2 ^ (W - 1)"
    and "json_Unmarshal_DeployKey w (Resource_Config resource) = Inr c"
    and "Resource_Metadata resource = Some [''key_id'' \<mapsto> Itoa (int_of_int64 W n)]"
    and "createInstallationToken (app p) (Owner c) administrative_profile = Inr (adminToken, e)"
  shows "ParseInt (Itoa (int_of_int64 W n)) = (n, None) \<and>
         snd (Destroy w p resource) =
           [TokenExchange (Owner c) administrative_profile,
            KeyDeletion adminToken (Owner c) (Repository c) n]"
proof -
  have r: "ParseInt (Itoa (int_of_int64 W n)) = (n, None)"
    using assms(1,2) by (simp add: int_of_int64_fits ParseInt_Itoa_sint)
  obtain resp err where
    "DeleteKey (reposClientFactory p adminToken) (Owner c) (Repository c) n = (resp, err)"
    by (cases "DeleteKey (reposClientFactory p adminToken) (Owner c) (Repository c) n")
  from Destroy_delete_result [OF assms(3,4) _ Itoa_not_empty r assms(5) this]
  have "snd (Destroy w p resource) =
          [TokenExchange (Owner c) administrative_profile,
           KeyDeletion adminToken (Owner c) (Repository c) n]"
    by simp
  with r show ?thesis by simp
qed

theorem key_id_round_trip_witness:
  "ParseInt (Itoa (int_of_int64 64 42)) = (42, None) \<and>
   snd (Destroy stub_world (stub_provider (Inr (''ghs_admin'', 3600)) (None, None))
          \<lparr>Resource_Config = ''deploy-key-config'',
           Resource_Metadata = Some [''key_id'' \<mapsto> Itoa (int_of_int64 64 42)]\<rparr>) =
     [TokenExchange ''acme'' administrative_profile,
      KeyDeletion ''ghs_admin'' ''acme'' ''widgets'' 42]"
proof -
  let ?p = "stub_provider (Inr (''ghs_admin'', 3600)) (None, None)"
  let ?r = "\<lparr>Resource_Config = ''deploy-key-config'',
             Resource_Metadata = Some [''key_id'' \<mapsto> Itoa (int_of_int64 64 42)]\<rparr>"
  have lo: "- (2 ^ (64 - 1)) \<le> sint (42 :: 64 word)" by simp
  have hi: "sint (42 :: 64 word) < 2 ^ (64 - 1)" by simp
  have d: "json_Unmarshal_DeployKey stub_world (Resource_Config ?r) = Inr stub_config"
    by (simp add: stub_world_def)
  have m: "Resource_Metadata ?r = Some [''key_id'' \<mapsto> Itoa (int_of_int64 64 42)]"
    by simp
  have x: "createInstallationToken (app ?p) (Owner stub_config) administrative_profile =
             Inr (''ghs_admin'', 3600)"
    by (simp add: stub_provider_def New_def)
  show ?thesis
    using key_id_round_trip [OF lo hi d m x] by (simp add: stub_config_def)
qed

text \<open>
  The same, end to end: when Create returned metadata, \<open>key\<close> is the registry's answer
  to the registration call Create made, and the platform's \<open>int\<close> can represent the
  identifier of \<open>key\<close>, a later Destroy that is given this metadata deletes the key whose
  identifier is \<open>GetID key\<close>.
\<close>

lemma Create_registered_key_metadata:
  assumes "fst (Create w p request) = (credentials, Some metadata, None)"
    and "KeyRegistration token owner repo arg \<in> set (snd (Create w p request))"
    and "CreateKey (reposClientFactory p token) owner repo arg = (key, registration_error)"
  shows "metadata = [''key_id'' \<mapsto> Itoa (int_of_int64 (IntSize w) (GetID key))]"
  using assms
  by (cases "Type request")
     (auto simp: Create_def createAccessToken_def createDeployKey_def generateKeyPair_def
        Let_def
        split: sum.splits prod.splits option.splits)

lemma Destroy_deletes_registered_key:
  assumes "fst (Create w p request) = (credentials, Some metadata, None)"
    and "KeyRegistration token owner repo arg \<in> set (snd (Create w p request))"
    and "CreateKey (reposClientFactory p token) owner repo arg = (key, registration_error)"
    and "- (2 ^ (IntSize w - 1)) \<le> sint (GetID key)"
    and "sint (GetID key) < 2 ^ (IntSize w - 1)"
    and "json_Unmarshal_DeployKey w (Resource_Config resource) = Inr c"
    and "Resource_Metadata resource = Some metadata"
    and "createInstallationToken (app p') (Owner c) administrative_profile = Inr (adminToken, e)"
  shows "snd (Destroy w p' resource) =
           [TokenExchange (Owner c) administrative_profile,
            KeyDeletion adminToken (Owner c) (Repository c) (GetID key)]"
proof -
  let ?n = "GetID key"
  have m: "Resource_Metadata resource = Some [''key_id'' \<mapsto> Itoa (sint ?n)]"
    using Create_registered_key_metadata [OF assms(1-3)] assms(4,5,7)
    by (simp add: int_of_int64_fits)
  obtain resp err where
    "DeleteKey (reposClientFactory p' adminToken) (Owner c) (Repository c) ?n = (resp, err)"
    by (cases "DeleteKey (reposClientFactory p' adminToken) (Owner c) (Repository c) ?n")
  from Destroy_delete_result [OF assms(6) m _ Itoa_not_empty ParseInt_Itoa_sint assms(8) this]
  show ?thesis by simp
qed

section \<open>Permission profiles\<close>

text \<open>
  C8. Every token exchange in the log of Create was made for an access-token request with
  the automation profile, or for a deploy-key request with the administrative profile;
  every token exchange in the log of Destroy was made with the administrative profile;
  and the two profiles differ, so the access-token flow never asks for the administrative
  one.
\<close>

theorem token_exchange_profiles:
  "(\<forall>owner permissions.
      TokenExchange owner permissions \<in> set (snd (Create w p request)) \<longrightarrow>
        (Type request = GithubAccessToken \<and> permissions = automation_profile) \<or>
        (Type request = GithubDeployKey \<and> permissions = administrative_profile)) \<and>
   (\<forall>owner permissions.
      TokenExchange owner permissions \<in> set (snd (Destroy w p resource)) \<longrightarrow>
        permissions = administrative_profile) \<and>
   automation_profile \<noteq> administrative_profile"
proof (intro conjI allI impI)
  fix owner permissions
  assume "TokenExchange owner permissions \<in> set (snd (Create w p request))"
  then show "(Type request = GithubAccessToken \<and> permissions = automation_profile) \<or>
             (Type request = GithubDeployKey \<and> permissions = administrative_profile)"
    by (cases "Type request")
       (auto simp: Create_def createAccessToken_def createDeployKey_def generateKeyPair_def
          automation_profile_def administrative_profile_def Let_def
          split: sum.splits prod.splits option.splits)
next
  fix owner permissions
  assume "TokenExchange owner permissions \<in> set (snd (Destroy w p resource))"
  then show "permissions = administrative_profile"
    by (auto simp: Destroy_def administrative_profile_def Let_def
          split: sum.splits prod.splits option.splits if_splits)
next
  show "automation_profile \<noteq> administrative_profile"
    by (simp add: automation_profile_def administrative_profile_def)
qed

theorem token_exchange_profiles_witness:
  "(\<exists>permissions.
      TokenExchange ''acme'' permissions \<in>
        set (snd (Create stub_world (stub_provider (Inr (''ghs_token'', 3600)) (None, None))
                    \<lparr>Type = GithubAccessToken, Config = ''access-token-config''\<rparr>)) \<and>
      permissions = automation_profile) \<and>
   (\<exists>permissions.
      TokenExchange ''acme'' permissions \<in>
        set (snd (Create stub_world (stub_provider (Inr (''ghs_token'', 3600)) (None, None))
                    \<lparr>Type = GithubDeployKey, Config = ''deploy-key-config''\<rparr>)) \<and>
      permissions = administrative_profile) \<and>
   (\<exists>permissions.
      TokenExchange ''acme'' permissions \<in>
        set (snd (Destroy stub_world (stub_provider (Inr (''ghs_token'', 3600)) (None, None))
                    \<lparr>Resource_Config = ''deploy-key-config'',
                     Resource_Metadata = Some [''key_id'' \<mapsto> ''42'']\<rparr>)) \<and>
      permissions = administrative_profile)"
proof -
  let ?p = "stub_provider (Inr (''ghs_token'', 3600)) (None, None)"
  let ?a = "\<lparr>Type = GithubAccessToken, Config = ''access-token-config''\<rparr>"
  let ?d = "\<lparr>Type = GithubDeployKey, Config = ''deploy-key-config''\<rparr>"
  let ?r = "\<lparr>Resource_Config = ''deploy-key-config'',
             Resource_Metadata = Some [''key_id'' \<mapsto> ''42'']\<rparr>"
  let ?auto = "\<lparr>Administration = None, Metadata = Some ''read'', Contents = Some ''read'',
                PullRequests = Some ''write'', Statuses = Some ''write''\<rparr>"
  let ?admin = "\<lparr>Administration = Some ''write'', Metadata = Some ''read'', Contents = None,
                 PullRequests = None, Statuses = None\<rparr>"
  have parse: "ParseInt ''42'' = (42, None)" by code_simp
  have a: "TokenExchange ''acme'' ?auto \<in> set (snd (Create stub_world ?p ?a))"
    by (simp add: Create_def createAccessToken_def stub_world_def stub_provider_def New_def
        Let_def)
  have d: "TokenExchange ''acme'' ?admin \<in> set (snd (Create stub_world ?p ?d))"
    by (simp add: Create_def createDeployKey_def generateKeyPair_def stub_world_def
        stub_provider_def stub_repos_def stub_config_def New_def Let_def)
  have r: "TokenExchange ''acme'' ?admin \<in> set (snd (Destroy stub_world ?p ?r))"
    using parse
    by (simp add: Destroy_def stub_world_def stub_provider_def stub_repos_def stub_config_def
        New_def map_index_def Let_def)
  have "?auto = automation_profile"
    using token_exchange_profiles [of stub_world ?p ?a, THEN conjunct1, rule_format, OF a]
    by simp
  moreover have "?admin = administrative_profile"
    using token_exchange_profiles [of stub_world ?p ?d, THEN conjunct1, rule_format, OF d]
    by simp
  moreover have "?admin = administrative_profile"
    using token_exchange_profiles [of stub_world ?p _ ?r, THEN conjunct2, THEN conjunct1,
        rule_format, OF r]
    by simp
  ultimately show ?thesis using a d r by auto
qed

section \<open>The key pair\<close>

text \<open>
  Both strings that generateKeyPair returns are encodings of the one key drawn from
  \<^verbatim>\<open>rsa.GenerateKey\<close>: the private string of the key, the public string of its public half.
\<close>

lemma generateKeyPair_same_key:
  assumes "generateKeyPair w = ((privateKeyPEM, publicKeyAuthorized, None), calls)"
  shows "\<exists>key pub.
           rsa_GenerateKey w 2048 = Inr key \<and>
           privateKeyPEM =
             pem_EncodeToMemory w ''RSA PRIVATE KEY'' (x509_MarshalPKCS1PrivateKey w key) \<and>
           ssh_NewPublicKey w (PublicKey key) = Inr pub \<and>
           publicKeyAuthorized = ssh_MarshalAuthorizedKey w pub"
  using assms by (auto simp: generateKeyPair_def Let_def split: sum.splits)

text \<open>
  C9. The parser of a private key is no part of the provider: it is a parameter here,
  \<open>parse\<close>, and the property is relative to its contract, that it gives back the key from
  the PEM block of type \<open>RSA PRIVATE KEY\<close> around the PKCS1 encoding of the key. For every
  pair of strings that generateKeyPair returns without error, the private string parses
  to the key that \<^verbatim>\<open>rsa.GenerateKey\<close> drew for 2048 bits, and the public half of the parsed
  key, made an SSH public key and written as an authorized-key line, is the public string,
  byte for byte.
\<close>

theorem generateKeyPair_round_trip:
  assumes "generateKeyPair w = ((privateKeyPEM, publicKeyAuthorized, None), calls)"
    and "\<forall>key. parse (pem_EncodeToMemory w ''RSA PRIVATE KEY''
                        (x509_MarshalPKCS1PrivateKey w key)) = Some key"
  shows "\<exists>key pub.
           rsa_GenerateKey w 2048 = Inr key \<and>
           parse privateKeyPEM = Some key \<and>
           ssh_NewPublicKey w (PublicKey key) = Inr pub \<and>
           ssh_MarshalAuthorizedKey w pub = publicKeyAuthorized"
proof -
  from generateKeyPair_same_key [OF assms(1)] obtain key pub where
    k: "rsa_GenerateKey w 2048 = Inr key"
    and priv: "privateKeyPEM =
      pem_EncodeToMemory w ''RSA PRIVATE KEY'' (x509_MarshalPKCS1PrivateKey w key)"
    and pub: "ssh_NewPublicKey w (PublicKey key) = Inr pub"
      "publicKeyAuthorized = ssh_MarshalAuthorizedKey w pub"
    by blast
  from assms(2) priv have "parse privateKeyPEM = Some key" by simp
  with k pub show ?thesis by blast
qed

theorem generateKeyPair_round_trip_witness:
  "\<exists>key pub.
     rsa_GenerateKey codec_world 2048 = Inr key \<and>
     codec_parse (fst (fst (generateKeyPair codec_world))) = Some key \<and>
     ssh_NewPublicKey codec_world (PublicKey key) = Inr pub \<and>
     ssh_MarshalAuthorizedKey codec_world pub = fst (snd (fst (generateKeyPair codec_world)))"
proof -
  let ?key = "\<lparr>PublicKey = \<lparr>rsa_N = 3233, rsa_E = 17\<rparr>, rsa_D = 413,
               rsa_Primes = [61, 53]\<rparr>"
  have g: "generateKeyPair codec_world =
             ((''RSA PRIVATE KEY'' @ '':'' @ enc_nats (nats_of_key ?key), ''ssh-rsa AAAA'', None),
              [KeyGeneration 2048])"
    by (simp add: generateKeyPair_def codec_world_def stub_world_def)
  have c: "\<forall>key. codec_parse (pem_EncodeToMemory codec_world ''RSA PRIVATE KEY''
                      (x509_MarshalPKCS1PrivateKey codec_world key)) = Some key"
    using codec_parse_encoded by (simp add: codec_world_def stub_world_def)
  from generateKeyPair_round_trip [OF g c] show ?thesis
    by (simp add: g)
qed

end
